theory Spec2Isabelle
  imports Main "HOL-Library.Sublist"
begin

section \<open>Python values, requests and responses\<close>

text \<open>
  The values that \<^verbatim>\<open>response.json()\<close> can produce, and that the utilities build:
  \<^verbatim>\<open>None\<close>, booleans, integers, floats (kept as mantissa and binary exponent, never
  inspected here), strings, lists and dictionaries. A dictionary is an association list
  read with \<open>map_of\<close>. The \<^verbatim>\<open>TypedDict\<close> schemas of the source are \<^verbatim>\<open>total=False\<close>
  annotations only: nothing checks them at run time, so an accessor returns any such value.
\<close>

datatype pyval =
    PNone
  | PBool bool
  | PInt int
  | PFloat int int
  | PStr string
  | PList "pyval list"
  | PDict "(string \<times> pyval) list"

type_synonym pydict = "(string \<times> pyval) list"

text \<open>
  A response of the HTTP library: its status code, and what \<^verbatim>\<open>response.json()\<close> gives
  (\<open>None\<close> when the body is not valid JSON, in which case the call raises a decode error).
\<close>

record response =
  status_code :: int
  json :: "pyval option"

text \<open>The arguments of the one \<^verbatim>\<open>client.request(...)\<close> call (its \<^verbatim>\<open>method\<close> argument is the
  field \<open>http_method\<close>), with the timeout of the client that issues it.\<close>

record request =
  http_method :: string
  url :: string
  json_data :: "pydict option"
  params :: "pydict option"
  headers :: "(string \<times> string) list"
  timeout :: int

text \<open>
  The exceptions of \<^verbatim>\<open>httpx.RequestError\<close> (transport failures and the two other request
  errors), all subclasses of \<^verbatim>\<open>httpx.HTTPError\<close>.
\<close>

datatype request_error =
    ConnectTimeout | ReadTimeout | WriteTimeout | PoolTimeout
  | ConnectError | ReadError | WriteError | CloseError
  | LocalProtocolError | RemoteProtocolError
  | ProxyError | UnsupportedProtocol
  | DecodingError | TooManyRedirects

text \<open>
  Every exception a function of the module can raise. \<open>HTTPStatusError\<close> and
  \<open>RequestError\<close> are the two branches of \<^verbatim>\<open>httpx.HTTPError\<close>; \<open>InvalidURL\<close>,
  \<open>JSONDecodeError\<close>, \<open>AttributeError\<close> and \<open>TypeError\<close> are not below it.
\<close>

datatype error =
    HTTPStatusError response
  | RequestError request_error
  | InvalidURL
  | JSONDecodeError
  | AttributeError
  | TypeError

text \<open>What \<^verbatim>\<open>client.request\<close> does: it returns a response or raises.\<close>

datatype reply =
    Reply response
  | Fail request_error
  | BadURL

text \<open>
  The network and the server behind it: the reply to a request may depend on every request
  issued before it. The world holds the requests issued so far, in order, and the string
  that \<^verbatim>\<open>datetime.now().isoformat()\<close> returns.
\<close>

type_synonym net = "request list \<Rightarrow> request \<Rightarrow> reply"

record world =
  issued :: "request list"
  clock :: string

section \<open>Python primitives used by the module\<close>

definition digit_char :: "nat \<Rightarrow> char" where
  "digit_char d = (''0123456789'' ! d)"

fun str_nat :: "nat \<Rightarrow> string" where
  "str_nat n = (if n < 10 then [digit_char n] else str_nat (n div 10) @ [digit_char (n mod 10)])"

declare str_nat.simps [simp del]

text \<open>\<^verbatim>\<open>f"{i}"\<close> for an integer: its decimal digits, with a minus sign when negative.\<close>

definition str_int :: "int \<Rightarrow> string" where
  "str_int i = (if i < 0 then CHR ''-'' # str_nat (nat (- i)) else str_nat (nat i))"

text \<open>Truth value of an \<^verbatim>\<open>Optional[str]\<close>: \<^verbatim>\<open>None\<close> and the empty string are false.\<close>

fun truthy :: "string option \<Rightarrow> bool" where
  "truthy None = False"
| "truthy (Some s) = (s \<noteq> [])"

text \<open>\<^verbatim>\<open>len(v)\<close>: defined on lists, dictionaries and strings, a \<^verbatim>\<open>TypeError\<close> otherwise.\<close>

fun py_len :: "pyval \<Rightarrow> error + nat" where
  "py_len (PList xs) = Inr (length xs)"
| "py_len (PDict kvs) = Inr (length (remdups (map fst kvs)))"
| "py_len (PStr s) = Inr (length s)"
| "py_len v = Inl TypeError"

text \<open>\<^verbatim>\<open>v.get(key)\<close>: only a dictionary has the method; a missing key gives \<^verbatim>\<open>None\<close>.\<close>

fun py_get :: "pyval \<Rightarrow> string \<Rightarrow> error + pyval" where
  "py_get (PDict kvs) k = Inr (case map_of kvs k of None \<Rightarrow> PNone | Some v \<Rightarrow> v)"
| "py_get v k = Inl AttributeError"

text \<open>
  \<^verbatim>\<open>for x in v\<close>: the elements of a list, the keys of a dictionary, the characters of a
  string; a \<^verbatim>\<open>TypeError\<close> otherwise.
\<close>

fun py_iter :: "pyval \<Rightarrow> error + pyval list" where
  "py_iter (PList xs) = Inr xs"
| "py_iter (PDict kvs) = Inr (map PStr (remdups (map fst kvs)))"
| "py_iter (PStr s) = Inr (map (\<lambda>c. PStr [c]) s)"
| "py_iter v = Inl TypeError"

section \<open>The request helper\<close>

definition DEFAULT_BASE_URL :: string where
  "DEFAULT_BASE_URL = ''http://localhost:8080/api/v1''"

text \<open>A parameter with a default value: \<open>None\<close> stands for an omitted argument.\<close>

fun default_arg :: "'a \<Rightarrow> 'a option \<Rightarrow> 'a" where
  "default_arg d None = d"
| "default_arg d (Some v) = v"

text \<open>
  \<^verbatim>\<open>response.raise_for_status()\<close> of the HTTP library raises \<^verbatim>\<open>HTTPStatusError\<close>, which
  carries the response, unless the status code is a 2xx code.
\<close>

definition is_success :: "response \<Rightarrow> bool" where
  "is_success r = (200 \<le> status_code r \<and> status_code r \<le> 299)"

definition raise_for_status :: "response \<Rightarrow> error + response" where
  "raise_for_status r = (if is_success r then Inr r else Inl (HTTPStatusError r))"

text \<open>
  \<^verbatim>\<open>_make_request\<close> (the leading underscore is dropped): builds the URL, issues one
  \<^verbatim>\<open>client.request\<close> with the two JSON headers, then \<^verbatim>\<open>raise_for_status\<close>.
\<close>

definition make_request ::
  "net \<Rightarrow> string \<Rightarrow> string \<Rightarrow> string option \<Rightarrow> pydict option \<Rightarrow> pydict option \<Rightarrow> int option
     \<Rightarrow> world \<Rightarrow> (error + response) \<times> world" where
  "make_request nt meth endpoint base_url jdata ps tmo w =
     (let u = default_arg DEFAULT_BASE_URL base_url @ endpoint;
          req = \<lparr>http_method = meth, url = u, json_data = jdata, params = ps,
                  headers = [(''Content-Type'', ''application/json''),
                             (''Accept'', ''application/json'')],
                  timeout = default_arg 30 tmo\<rparr>;
          w' = w\<lparr>issued := issued w @ [req]\<rparr>
      in case nt (issued w) req of
           Reply r \<Rightarrow> (raise_for_status r, w')
         | Fail e \<Rightarrow> (Inl (RequestError e), w')
         | BadURL \<Rightarrow> (Inl InvalidURL, w'))"

text \<open>\<^verbatim>\<open>response.json()\<close>.\<close>

definition response_json :: "response \<Rightarrow> error + pyval" where
  "response_json r = (case json r of None \<Rightarrow> Inl JSONDecodeError | Some v \<Rightarrow> Inr v)"

section \<open>Entity accessors\<close>

definition get_operator_by_id :: "net \<Rightarrow> int \<Rightarrow> string option \<Rightarrow> world \<Rightarrow> (error + pyval) \<times> world" where
  "get_operator_by_id nt operator_id base_url w =
     (case make_request nt ''GET'' (''/operators/'' @ str_int operator_id)
             (Some (default_arg DEFAULT_BASE_URL base_url)) None None None w of
        (Inl e, w') \<Rightarrow> (Inl e, w')
      | (Inr r, w') \<Rightarrow> (response_json r, w'))"

definition get_all_operators :: "net \<Rightarrow> string option \<Rightarrow> world \<Rightarrow> (error + pyval) \<times> world" where
  "get_all_operators nt base_url w =
     (case make_request nt ''GET'' ''/operators''
             (Some (default_arg DEFAULT_BASE_URL base_url)) None None None w of
        (Inl e, w') \<Rightarrow> (Inl e, w')
      | (Inr r, w') \<Rightarrow> (response_json r, w'))"

definition get_operator_lots :: "net \<Rightarrow> int \<Rightarrow> string option \<Rightarrow> world \<Rightarrow> (error + pyval) \<times> world" where
  "get_operator_lots nt operator_id base_url w =
     (case make_request nt ''GET'' (''/operators/'' @ str_int operator_id @ ''/lots'')
             (Some (default_arg DEFAULT_BASE_URL base_url)) None None None w of
        (Inl e, w') \<Rightarrow> (Inl e, w')
      | (Inr r, w') \<Rightarrow> (response_json r, w'))"

definition get_operators_by_department ::
  "net \<Rightarrow> string \<Rightarrow> string option \<Rightarrow> world \<Rightarrow> (error + pyval) \<times> world" where
  "get_operators_by_department nt department base_url w =
     (case make_request nt ''GET'' (''/operators/department/'' @ department)
             (Some (default_arg DEFAULT_BASE_URL base_url)) None None None w of
        (Inl e, w') \<Rightarrow> (Inl e, w')
      | (Inr r, w') \<Rightarrow> (response_json r, w'))"

definition get_operator_by_code :: "net \<Rightarrow> string \<Rightarrow> string option \<Rightarrow> world \<Rightarrow> (error + pyval) \<times> world" where
  "get_operator_by_code nt code base_url w =
     (case make_request nt ''GET'' (''/operators/code/'' @ code)
             (Some (default_arg DEFAULT_BASE_URL base_url)) None None None w of
        (Inl e, w') \<Rightarrow> (Inl e, w')
      | (Inr r, w') \<Rightarrow> (response_json r, w'))"

section \<open>Utilities\<close>

text \<open>
  \<^verbatim>\<open>get_operator_summary\<close>: the two fetches in sequence, then the dictionary display,
  whose entries are evaluated in order (\<^verbatim>\<open>len(lots)\<close> before
  \<^verbatim>\<open>operator.get("department")\<close>, the clock last).
\<close>

definition get_operator_summary :: "net \<Rightarrow> int \<Rightarrow> string option \<Rightarrow> world \<Rightarrow> (error + pyval) \<times> world" where
  "get_operator_summary nt operator_id base_url w =
     (let b = Some (default_arg DEFAULT_BASE_URL base_url) in
      case get_operator_by_id nt operator_id b w of
        (Inl e, w1) \<Rightarrow> (Inl e, w1)
      | (Inr operator, w1) \<Rightarrow>
          (case get_operator_lots nt operator_id b w1 of
             (Inl e, w2) \<Rightarrow> (Inl e, w2)
           | (Inr lots, w2) \<Rightarrow>
               (case py_len lots of
                  Inl e \<Rightarrow> (Inl e, w2)
                | Inr n \<Rightarrow>
                    (case py_get operator ''department'' of
                       Inl e \<Rightarrow> (Inl e, w2)
                     | Inr d \<Rightarrow>
                         (Inr (PDict [(''operator'', operator),
                                      (''lots'', lots),
                                      (''total_lots'', PInt (int n)),
                                      (''departments'', PList [d]),
                                      (''summary_generated_at'', PStr (clock w2))]), w2)))))"

text \<open>
  The comprehension \<^verbatim>\<open>[op for op in operators if op.get("status") == status]\<close> over the
  elements already produced by the iteration. A string equals only an equal string.
\<close>

fun filter_status :: "string \<Rightarrow> pyval list \<Rightarrow> error + pyval list" where
  "filter_status status [] = Inr []"
| "filter_status status (x # xs) =
     (case py_get x ''status'' of
        Inl e \<Rightarrow> Inl e
      | Inr v \<Rightarrow>
          (case filter_status status xs of
             Inl e \<Rightarrow> Inl e
           | Inr ys \<Rightarrow> Inr (if v = PStr status then x # ys else ys)))"

definition search_operators ::
  "net \<Rightarrow> string option \<Rightarrow> string option \<Rightarrow> string option \<Rightarrow> world \<Rightarrow> (error + pyval) \<times> world" where
  "search_operators nt department status base_url w =
     (let b = Some (default_arg DEFAULT_BASE_URL base_url) in
      case (if truthy department then get_operators_by_department nt (the department) b w
            else get_all_operators nt b w) of
        (Inl e, w') \<Rightarrow> (Inl e, w')
      | (Inr operators, w') \<Rightarrow>
          (if truthy status then
             (case py_iter operators of
                Inl e \<Rightarrow> (Inl e, w')
              | Inr xs \<Rightarrow>
                  (case filter_status (the status) xs of
                     Inl e \<Rightarrow> (Inl e, w')
                   | Inr ys \<Rightarrow> (Inr (PList ys), w')))
           else (Inr operators, w')))"

text \<open>
  \<^verbatim>\<open>safe_get_operator\<close>: the first handler takes every \<^verbatim>\<open>HTTPStatusError\<close> and re-raises
  unless the code is 404; the second takes the rest of \<^verbatim>\<open>httpx.HTTPError\<close>; any other
  exception passes through.
\<close>

definition safe_get_operator :: "net \<Rightarrow> int \<Rightarrow> string option \<Rightarrow> world \<Rightarrow> (error + pyval) \<times> world" where
  "safe_get_operator nt operator_id base_url w =
     (case get_operator_by_id nt operator_id (Some (default_arg DEFAULT_BASE_URL base_url)) w of
        (Inr v, w') \<Rightarrow> (Inr v, w')
      | (Inl (HTTPStatusError r), w') \<Rightarrow>
          (if status_code r = 404 then (Inr PNone, w') else (Inl (HTTPStatusError r), w'))
      | (Inl (RequestError e), w') \<Rightarrow> (Inr PNone, w')
      | (Inl e, w') \<Rightarrow> (Inl e, w'))"

section \<open>A concrete server\<close>

text \<open>
  The scenario of the documentation: operator 1 is John Smith of Production, with two lots;
  a second operator of the same department is inactive; every unknown path answers 404;
  operator 500 makes the server fail and operator 7 cannot be reached in time.
\<close>

definition john :: pyval where
  "john = PDict [(''operatorId'', PInt 1), (''operatorName'', PStr ''John Smith''),
                 (''department'', PStr ''Production''), (''status'', PStr ''Active'')]"

definition mary :: pyval where
  "mary = PDict [(''operatorId'', PInt 2), (''operatorName'', PStr ''Mary Jones''),
                 (''department'', PStr ''Production''), (''status'', PStr ''Inactive'')]"

definition lot_a :: pyval where
  "lot_a = PDict [(''lotId'', PInt 10), (''lotNumber'', PStr ''LOT-010''), (''waferCount'', PInt 25)]"

definition lot_b :: pyval where
  "lot_b = PDict [(''lotId'', PInt 11), (''lotNumber'', PStr ''LOT-011''), (''waferCount'', PInt 24)]"

definition ok :: "pyval \<Rightarrow> response" where
  "ok v = \<lparr>status_code = 200, json = Some v\<rparr>"

definition not_found :: response where
  "not_found = \<lparr>status_code = 404, json = Some (PDict [(''error'', PStr ''Not Found'')])\<rparr>"

definition server_error :: response where
  "server_error = \<lparr>status_code = 500, json = None\<rparr>"

definition demo_net :: net where
  "demo_net hist req =
     (if url req = ''http://localhost:8080/api/v1/operators/1'' then Reply (ok john)
      else if url req = ''http://localhost:8080/api/v1/operators/1/lots'' then Reply (ok (PList [lot_a, lot_b]))
      else if url req = ''http://localhost:8080/api/v1/operators'' then Reply (ok (PList [john, mary]))
      else if url req = ''http://localhost:8080/api/v1/operators/department/Production''
        then Reply (ok (PList [john, mary]))
      else if url req = ''http://localhost:8080/api/v1/operators/department/'' then Reply (ok (PList []))
      else if url req = ''http://localhost:8080/api/v1/operators/code/OP001'' then Reply (ok john)
      else if url req = ''http://localhost:8080/api/v1/operators/500'' then Reply server_error
      else if url req = ''http://localhost:8080/api/v1/operators/7'' then Fail ConnectTimeout
      else Reply not_found)"

definition world0 :: world where
  "world0 = \<lparr>issued = [], clock = ''2024-01-15T10:30:00''\<rparr>"

text \<open>The request an accessor issues for a URL: a GET with no body, no query, the default timeout.\<close>

abbreviation get_req :: "string \<Rightarrow> request" where
  "get_req u \<equiv> \<lparr>http_method = ''GET'', url = u, json_data = None, params = None,
                 headers = [(''Content-Type'', ''application/json''), (''Accept'', ''application/json'')],
                 timeout = 30\<rparr>"


section \<open>Evaluation and unfolding lemmas\<close>

lemma str_int_1: "str_int 1 = ''1''"
  by (simp add: str_int_def str_nat.simps digit_char_def)

lemma str_int_999: "str_int 999 = ''999''"
  by (simp add: str_int_def str_nat.simps digit_char_def)

lemma str_int_500: "str_int 500 = ''500''"
  by (simp add: str_int_def str_nat.simps digit_char_def)

lemma str_int_7: "str_int 7 = ''7''"
  by (simp add: str_int_def str_nat.simps digit_char_def)

lemma make_request_eq:
  "make_request nt meth endpoint base_url jdata ps tmo w =
     (let req = \<lparr>http_method = meth, url = default_arg DEFAULT_BASE_URL base_url @ endpoint,
                   json_data = jdata, params = ps,
                   headers = [(''Content-Type'', ''application/json''), (''Accept'', ''application/json'')],
                   timeout = default_arg 30 tmo\<rparr>
      in (case nt (issued w) req of
            Reply r \<Rightarrow> if 200 \<le> status_code r \<and> status_code r \<le> 299 then Inr r else Inl (HTTPStatusError r)
          | Fail e \<Rightarrow> Inl (RequestError e)
          | BadURL \<Rightarrow> Inl InvalidURL,
          w\<lparr>issued := issued w @ [req]\<rparr>))"
  by (simp add: make_request_def Let_def raise_for_status_def is_success_def split: reply.splits)

text \<open>What an accessor returns for a reply of the network.\<close>

lemma get_operator_by_id_eq:
  "get_operator_by_id nt i b w =
     (case nt (issued w) (get_req (default_arg DEFAULT_BASE_URL b @ ''/operators/'' @ str_int i)) of
        Reply r \<Rightarrow> if 200 \<le> status_code r \<and> status_code r \<le> 299 then response_json r else Inl (HTTPStatusError r)
      | Fail e \<Rightarrow> Inl (RequestError e)
      | BadURL \<Rightarrow> Inl InvalidURL,
      w\<lparr>issued := issued w @ [get_req (default_arg DEFAULT_BASE_URL b @ ''/operators/'' @ str_int i)]\<rparr>)"
  by (simp add: get_operator_by_id_def make_request_eq Let_def split: reply.splits)

lemma get_all_operators_eq:
  "get_all_operators nt b w =
     (case nt (issued w) (get_req (default_arg DEFAULT_BASE_URL b @ ''/operators'')) of
        Reply r \<Rightarrow> if 200 \<le> status_code r \<and> status_code r \<le> 299 then response_json r else Inl (HTTPStatusError r)
      | Fail e \<Rightarrow> Inl (RequestError e)
      | BadURL \<Rightarrow> Inl InvalidURL,
      w\<lparr>issued := issued w @ [get_req (default_arg DEFAULT_BASE_URL b @ ''/operators'')]\<rparr>)"
  by (simp add: get_all_operators_def make_request_eq Let_def split: reply.splits)

lemma get_operator_lots_eq:
  "get_operator_lots nt i b w =
     (case nt (issued w) (get_req (default_arg DEFAULT_BASE_URL b @ ''/operators/'' @ str_int i @ ''/lots'')) of
        Reply r \<Rightarrow> if 200 \<le> status_code r \<and> status_code r \<le> 299 then response_json r else Inl (HTTPStatusError r)
      | Fail e \<Rightarrow> Inl (RequestError e)
      | BadURL \<Rightarrow> Inl InvalidURL,
      w\<lparr>issued := issued w @ [get_req (default_arg DEFAULT_BASE_URL b @ ''/operators/'' @ str_int i @ ''/lots'')]\<rparr>)"
  by (simp add: get_operator_lots_def make_request_eq Let_def split: reply.splits)

lemma get_operators_by_department_eq:
  "get_operators_by_department nt d b w =
     (case nt (issued w) (get_req (default_arg DEFAULT_BASE_URL b @ ''/operators/department/'' @ d)) of
        Reply r \<Rightarrow> if 200 \<le> status_code r \<and> status_code r \<le> 299 then response_json r else Inl (HTTPStatusError r)
      | Fail e \<Rightarrow> Inl (RequestError e)
      | BadURL \<Rightarrow> Inl InvalidURL,
      w\<lparr>issued := issued w @ [get_req (default_arg DEFAULT_BASE_URL b @ ''/operators/department/'' @ d)]\<rparr>)"
  by (simp add: get_operators_by_department_def make_request_eq Let_def split: reply.splits)

lemma get_operator_by_code_eq:
  "get_operator_by_code nt c b w =
     (case nt (issued w) (get_req (default_arg DEFAULT_BASE_URL b @ ''/operators/code/'' @ c)) of
        Reply r \<Rightarrow> if 200 \<le> status_code r \<and> status_code r \<le> 299 then response_json r else Inl (HTTPStatusError r)
      | Fail e \<Rightarrow> Inl (RequestError e)
      | BadURL \<Rightarrow> Inl InvalidURL,
      w\<lparr>issued := issued w @ [get_req (default_arg DEFAULT_BASE_URL b @ ''/operators/code/'' @ c)]\<rparr>)"
  by (simp add: get_operator_by_code_def make_request_eq Let_def split: reply.splits)

lemma safe_get_operator_eq:
  "safe_get_operator nt i b w =
     (case get_operator_by_id nt i b w of
        (Inr v, w') \<Rightarrow> (Inr v, w')
      | (Inl (HTTPStatusError r), w') \<Rightarrow>
          (if status_code r = 404 then (Inr PNone, w') else (Inl (HTTPStatusError r), w'))
      | (Inl (RequestError e), w') \<Rightarrow> (Inr PNone, w')
      | (Inl e, w') \<Rightarrow> (Inl e, w'))"
  by (simp add: safe_get_operator_def get_operator_by_id_eq)

section \<open>The safe accessor\<close>

text \<open>
  Claim C1. For every operator id, when \<open>get_operator_by_id\<close> fails with an HTTP status
  error whose code is 404, or with any request error of the transport (connection failure,
  timeout), \<open>safe_get_operator\<close> returns \<^verbatim>\<open>None\<close> and raises nothing; in particular it
  returns \<^verbatim>\<open>None\<close> whenever the server answers the lookup with status 404.
\<close>

theorem safe_get_operator_absent:
  "(get_operator_by_id nt i b w = (Inl e, w') \<and>
      ((\<exists>r. e = HTTPStatusError r \<and> status_code r = 404) \<or> (\<exists>k. e = RequestError k))
      \<longrightarrow> safe_get_operator nt i b w = (Inr PNone, w'))
   \<and> (nt (issued w) (get_req (default_arg DEFAULT_BASE_URL b @ ''/operators/'' @ str_int i)) = Reply r404
        \<and> status_code r404 = 404
      \<longrightarrow> fst (safe_get_operator nt i b w) = Inr PNone)"
proof (intro conjI impI)
  assume "get_operator_by_id nt i b w = (Inl e, w') \<and>
      ((\<exists>r. e = HTTPStatusError r \<and> status_code r = 404) \<or> (\<exists>k. e = RequestError k))"
  then show "safe_get_operator nt i b w = (Inr PNone, w')"
    by (auto simp add: safe_get_operator_eq)
next
  assume "nt (issued w) (get_req (default_arg DEFAULT_BASE_URL b @ ''/operators/'' @ str_int i)) = Reply r404
        \<and> status_code r404 = 404"
  then show "fst (safe_get_operator nt i b w) = Inr PNone"
    by (simp add: safe_get_operator_eq get_operator_by_id_eq)
qed

theorem safe_get_operator_absent_witness:
  "get_operator_by_id demo_net 999 None world0
     = (Inl (HTTPStatusError not_found),
        world0\<lparr>issued := [get_req ''http://localhost:8080/api/v1/operators/999'']\<rparr>)
   \<and> status_code not_found = 404
   \<and> safe_get_operator demo_net 999 None world0
     = (Inr PNone, world0\<lparr>issued := [get_req ''http://localhost:8080/api/v1/operators/999'']\<rparr>)
   \<and> get_operator_by_id demo_net 7 None world0
     = (Inl (RequestError ConnectTimeout),
        world0\<lparr>issued := [get_req ''http://localhost:8080/api/v1/operators/7'']\<rparr>)
   \<and> safe_get_operator demo_net 7 None world0
     = (Inr PNone, world0\<lparr>issued := [get_req ''http://localhost:8080/api/v1/operators/7'']\<rparr>)"
proof -
  have a: "get_operator_by_id demo_net 999 None world0
     = (Inl (HTTPStatusError not_found),
        world0\<lparr>issued := [get_req ''http://localhost:8080/api/v1/operators/999'']\<rparr>)"
    by (simp add: get_operator_by_id_eq str_int_999 DEFAULT_BASE_URL_def demo_net_def world0_def
          not_found_def)
  have b: "status_code not_found = 404"
    by (simp add: not_found_def)
  have c: "get_operator_by_id demo_net 7 None world0
     = (Inl (RequestError ConnectTimeout),
        world0\<lparr>issued := [get_req ''http://localhost:8080/api/v1/operators/7'']\<rparr>)"
    by (simp add: get_operator_by_id_eq str_int_7 DEFAULT_BASE_URL_def demo_net_def world0_def)
  from a b c
    safe_get_operator_absent [of demo_net 999 None world0 "HTTPStatusError not_found"
      "world0\<lparr>issued := [get_req ''http://localhost:8080/api/v1/operators/999'']\<rparr>"]
    safe_get_operator_absent [of demo_net 7 None world0 "RequestError ConnectTimeout"
      "world0\<lparr>issued := [get_req ''http://localhost:8080/api/v1/operators/7'']\<rparr>"]
  show ?thesis by blast
qed

text \<open>
  Claim C10. When \<open>get_operator_by_id\<close> fails with an HTTP status error whose code is not
  404 (500, say), \<open>safe_get_operator\<close> raises that same error again; more generally every
  failure that is neither a 404 status error nor a request error of the transport passes
  through unchanged, so only those two are turned into \<^verbatim>\<open>None\<close>.
\<close>

theorem safe_get_operator_reraises:
  "get_operator_by_id nt i b w = (Inl e, w') \<Longrightarrow>
   \<not> (\<exists>r. e = HTTPStatusError r \<and> status_code r = 404) \<Longrightarrow>
   \<not> (\<exists>k. e = RequestError k) \<Longrightarrow>
   safe_get_operator nt i b w = (Inl e, w')"
  by (cases e) (auto simp add: safe_get_operator_eq)

theorem safe_get_operator_reraises_witness:
  "get_operator_by_id demo_net 500 None world0
     = (Inl (HTTPStatusError server_error),
        world0\<lparr>issued := [get_req ''http://localhost:8080/api/v1/operators/500'']\<rparr>)
   \<and> status_code server_error = 500
   \<and> safe_get_operator demo_net 500 None world0
     = (Inl (HTTPStatusError server_error),
        world0\<lparr>issued := [get_req ''http://localhost:8080/api/v1/operators/500'']\<rparr>)"
proof -
  have a: "get_operator_by_id demo_net 500 None world0
     = (Inl (HTTPStatusError server_error),
        world0\<lparr>issued := [get_req ''http://localhost:8080/api/v1/operators/500'']\<rparr>)"
    by (simp add: get_operator_by_id_eq str_int_500 DEFAULT_BASE_URL_def demo_net_def world0_def
          server_error_def)
  have b: "status_code server_error = 500"
    by (simp add: server_error_def)
  have c: "\<not> (\<exists>r. HTTPStatusError server_error = HTTPStatusError r \<and> status_code r = 404)"
    using b by simp
  have d: "\<not> (\<exists>k. HTTPStatusError server_error = RequestError k)"
    by simp
  from safe_get_operator_reraises [OF a c d] a b show ?thesis by simp
qed


section \<open>The request helper and the accessors\<close>

text \<open>
  Claim C6. For every method, path, base URL, body, query parameters and timeout,
  \<open>make_request\<close> issues exactly one request, to the URL that is the base URL followed by
  the path, with the headers \<^verbatim>\<open>Content-Type: application/json\<close> and
  \<^verbatim>\<open>Accept: application/json\<close>; it raises an HTTP status error, carrying the response
  and so its status code, exactly when a response arrives whose status is not a 2xx code,
  and returns the response unchanged when the status is a 2xx code.
\<close>

theorem make_request_contract:
  "(let req = \<lparr>http_method = meth, url = default_arg DEFAULT_BASE_URL base_url @ endpoint,
                 json_data = jdata, params = ps,
                 headers = [(''Content-Type'', ''application/json''), (''Accept'', ''application/json'')],
                 timeout = default_arg 30 tmo\<rparr>;
        res = make_request nt meth endpoint base_url jdata ps tmo w
    in issued (snd res) = issued w @ [req]
     \<and> clock (snd res) = clock w
     \<and> ((\<exists>r. fst res = Inl (HTTPStatusError r)) \<longleftrightarrow>
          (\<exists>r. nt (issued w) req = Reply r \<and> \<not> (200 \<le> status_code r \<and> status_code r \<le> 299)))
     \<and> (\<forall>r. nt (issued w) req = Reply r \<longrightarrow>
            fst res = (if 200 \<le> status_code r \<and> status_code r \<le> 299 then Inr r
                       else Inl (HTTPStatusError r))))"
  by (auto simp add: make_request_eq Let_def split: reply.splits)

theorem make_request_contract_witness:
  "demo_net (issued world0) (get_req ''http://localhost:8080/api/v1/operators/1'') = Reply (ok john)
   \<and> status_code (ok john) = 200
   \<and> fst (make_request demo_net ''GET'' ''/operators/1'' None None None None world0) = Inr (ok john)
   \<and> demo_net (issued world0) (get_req ''http://localhost:8080/api/v1/operators/999'') = Reply not_found
   \<and> status_code not_found = 404
   \<and> fst (make_request demo_net ''GET'' ''/operators/999'' None None None None world0)
       = Inl (HTTPStatusError not_found)
   \<and> issued (snd (make_request demo_net ''GET'' ''/operators/999'' None None None None world0))
       = [get_req ''http://localhost:8080/api/v1/operators/999'']"
proof -
  have a: "demo_net (issued world0) (get_req ''http://localhost:8080/api/v1/operators/1'') = Reply (ok john)"
    by (simp add: demo_net_def)
  have b: "status_code (ok john) = 200"
    by (simp add: ok_def)
  have c: "demo_net (issued world0) (get_req ''http://localhost:8080/api/v1/operators/999'') = Reply not_found"
    by (simp add: demo_net_def)
  have d: "status_code not_found = 404"
    by (simp add: not_found_def)
  have e: "issued world0 = []"
    by (simp add: world0_def)
  from a b c d e
    make_request_contract [of "''GET''" None "''/operators/1''" None None None demo_net world0]
    make_request_contract [of "''GET''" None "''/operators/999''" None None None demo_net world0]
  show ?thesis
    by (simp add: Let_def DEFAULT_BASE_URL_def)
qed

text \<open>
  Claim C7. Each of the five accessors issues a single GET to its endpoint path appended to
  the base URL (\<^verbatim>\<open>/operators/{id}\<close>, \<^verbatim>\<open>/operators\<close>, \<^verbatim>\<open>/operators/{id}/lots\<close>,
  \<^verbatim>\<open>/operators/department/{department}\<close>, \<^verbatim>\<open>/operators/code/{code}\<close>) and, on a 2xx
  response, returns the parsed JSON body as it is, whatever its shape.
\<close>

theorem accessors_forward_json:
  "(issued (snd (get_operator_by_id nt i b w))
      = issued w @ [get_req (default_arg DEFAULT_BASE_URL b @ ''/operators/'' @ str_int i)]
    \<and> (\<forall>r v. nt (issued w) (get_req (default_arg DEFAULT_BASE_URL b @ ''/operators/'' @ str_int i)) = Reply r
           \<and> 200 \<le> status_code r \<and> status_code r \<le> 299 \<and> json r = Some v
           \<longrightarrow> fst (get_operator_by_id nt i b w) = Inr v))
   \<and> (issued (snd (get_all_operators nt b w))
      = issued w @ [get_req (default_arg DEFAULT_BASE_URL b @ ''/operators'')]
    \<and> (\<forall>r v. nt (issued w) (get_req (default_arg DEFAULT_BASE_URL b @ ''/operators'')) = Reply r
           \<and> 200 \<le> status_code r \<and> status_code r \<le> 299 \<and> json r = Some v
           \<longrightarrow> fst (get_all_operators nt b w) = Inr v))
   \<and> (issued (snd (get_operator_lots nt i b w))
      = issued w @ [get_req (default_arg DEFAULT_BASE_URL b @ ''/operators/'' @ str_int i @ ''/lots'')]
    \<and> (\<forall>r v. nt (issued w) (get_req (default_arg DEFAULT_BASE_URL b @ ''/operators/'' @ str_int i @ ''/lots''))
             = Reply r
           \<and> 200 \<le> status_code r \<and> status_code r \<le> 299 \<and> json r = Some v
           \<longrightarrow> fst (get_operator_lots nt i b w) = Inr v))
   \<and> (issued (snd (get_operators_by_department nt d b w))
      = issued w @ [get_req (default_arg DEFAULT_BASE_URL b @ ''/operators/department/'' @ d)]
    \<and> (\<forall>r v. nt (issued w) (get_req (default_arg DEFAULT_BASE_URL b @ ''/operators/department/'' @ d)) = Reply r
           \<and> 200 \<le> status_code r \<and> status_code r \<le> 299 \<and> json r = Some v
           \<longrightarrow> fst (get_operators_by_department nt d b w) = Inr v))
   \<and> (issued (snd (get_operator_by_code nt c b w))
      = issued w @ [get_req (default_arg DEFAULT_BASE_URL b @ ''/operators/code/'' @ c)]
    \<and> (\<forall>r v. nt (issued w) (get_req (default_arg DEFAULT_BASE_URL b @ ''/operators/code/'' @ c)) = Reply r
           \<and> 200 \<le> status_code r \<and> status_code r \<le> 299 \<and> json r = Some v
           \<longrightarrow> fst (get_operator_by_code nt c b w) = Inr v))"
proof (intro conjI)
  show "issued (snd (get_operator_by_id nt i b w))
      = issued w @ [get_req (default_arg DEFAULT_BASE_URL b @ ''/operators/'' @ str_int i)]"
    by (simp add: get_operator_by_id_eq)
  show "\<forall>r v. nt (issued w) (get_req (default_arg DEFAULT_BASE_URL b @ ''/operators/'' @ str_int i)) = Reply r
           \<and> 200 \<le> status_code r \<and> status_code r \<le> 299 \<and> json r = Some v
           \<longrightarrow> fst (get_operator_by_id nt i b w) = Inr v"
    by (simp add: get_operator_by_id_eq response_json_def)
  show "issued (snd (get_all_operators nt b w))
      = issued w @ [get_req (default_arg DEFAULT_BASE_URL b @ ''/operators'')]"
    by (simp add: get_all_operators_eq)
  show "\<forall>r v. nt (issued w) (get_req (default_arg DEFAULT_BASE_URL b @ ''/operators'')) = Reply r
           \<and> 200 \<le> status_code r \<and> status_code r \<le> 299 \<and> json r = Some v
           \<longrightarrow> fst (get_all_operators nt b w) = Inr v"
    by (simp add: get_all_operators_eq response_json_def)
  show "issued (snd (get_operator_lots nt i b w))
      = issued w @ [get_req (default_arg DEFAULT_BASE_URL b @ ''/operators/'' @ str_int i @ ''/lots'')]"
    by (simp add: get_operator_lots_eq)
  show "\<forall>r v. nt (issued w) (get_req (default_arg DEFAULT_BASE_URL b @ ''/operators/'' @ str_int i @ ''/lots''))
             = Reply r
           \<and> 200 \<le> status_code r \<and> status_code r \<le> 299 \<and> json r = Some v
           \<longrightarrow> fst (get_operator_lots nt i b w) = Inr v"
    by (simp add: get_operator_lots_eq response_json_def)
  show "issued (snd (get_operators_by_department nt d b w))
      = issued w @ [get_req (default_arg DEFAULT_BASE_URL b @ ''/operators/department/'' @ d)]"
    by (simp add: get_operators_by_department_eq)
  show "\<forall>r v. nt (issued w) (get_req (default_arg DEFAULT_BASE_URL b @ ''/operators/department/'' @ d)) = Reply r
           \<and> 200 \<le> status_code r \<and> status_code r \<le> 299 \<and> json r = Some v
           \<longrightarrow> fst (get_operators_by_department nt d b w) = Inr v"
    by (simp add: get_operators_by_department_eq response_json_def)
  show "issued (snd (get_operator_by_code nt c b w))
      = issued w @ [get_req (default_arg DEFAULT_BASE_URL b @ ''/operators/code/'' @ c)]"
    by (simp add: get_operator_by_code_eq)
  show "\<forall>r v. nt (issued w) (get_req (default_arg DEFAULT_BASE_URL b @ ''/operators/code/'' @ c)) = Reply r
           \<and> 200 \<le> status_code r \<and> status_code r \<le> 299 \<and> json r = Some v
           \<longrightarrow> fst (get_operator_by_code nt c b w) = Inr v"
    by (simp add: get_operator_by_code_eq response_json_def)
qed

theorem accessors_forward_json_witness:
  "demo_net (issued world0) (get_req ''http://localhost:8080/api/v1/operators/1'') = Reply (ok john)
   \<and> fst (get_operator_by_id demo_net 1 None world0) = Inr john
   \<and> demo_net (issued world0) (get_req ''http://localhost:8080/api/v1/operators'') = Reply (ok (PList [john, mary]))
   \<and> fst (get_all_operators demo_net None world0) = Inr (PList [john, mary])
   \<and> demo_net (issued world0) (get_req ''http://localhost:8080/api/v1/operators/1/lots'')
       = Reply (ok (PList [lot_a, lot_b]))
   \<and> fst (get_operator_lots demo_net 1 None world0) = Inr (PList [lot_a, lot_b])
   \<and> demo_net (issued world0) (get_req ''http://localhost:8080/api/v1/operators/department/Production'')
       = Reply (ok (PList [john, mary]))
   \<and> fst (get_operators_by_department demo_net ''Production'' None world0) = Inr (PList [john, mary])
   \<and> demo_net (issued world0) (get_req ''http://localhost:8080/api/v1/operators/code/OP001'') = Reply (ok john)
   \<and> fst (get_operator_by_code demo_net ''OP001'' None world0) = Inr john"
proof -
  have a: "demo_net (issued world0) (get_req ''http://localhost:8080/api/v1/operators/1'') = Reply (ok john)"
    by (simp add: demo_net_def)
  have b: "demo_net (issued world0) (get_req ''http://localhost:8080/api/v1/operators'')
             = Reply (ok (PList [john, mary]))"
    by (simp add: demo_net_def)
  have c: "demo_net (issued world0) (get_req ''http://localhost:8080/api/v1/operators/1/lots'')
             = Reply (ok (PList [lot_a, lot_b]))"
    by (simp add: demo_net_def)
  have d: "demo_net (issued world0) (get_req ''http://localhost:8080/api/v1/operators/department/Production'')
             = Reply (ok (PList [john, mary]))"
    by (simp add: demo_net_def)
  have e: "demo_net (issued world0) (get_req ''http://localhost:8080/api/v1/operators/code/OP001'') = Reply (ok john)"
    by (simp add: demo_net_def)
  have f: "status_code (ok v) = 200 \<and> json (ok v) = Some v" for v
    by (simp add: ok_def)
  from a b c d e f
    accessors_forward_json [of demo_net 1 None world0 "''Production''" "''OP001''"]
  show ?thesis
    by (simp add: DEFAULT_BASE_URL_def str_int_1)
qed

text \<open>
  Claim C8. When the server answers \<^verbatim>\<open>GET /operators/{id}\<close> successfully with a record
  whose \<^verbatim>\<open>operatorId\<close> is the requested id, \<open>get_operator_by_id\<close> returns a record whose
  \<^verbatim>\<open>operatorId\<close> field equals the requested id.
\<close>

theorem get_operator_by_id_returns_requested:
  assumes "nt (issued w) (get_req (default_arg DEFAULT_BASE_URL b @ ''/operators/'' @ str_int i)) = Reply r"
    and "200 \<le> status_code r" and "status_code r \<le> 299"
    and "json r = Some (PDict kvs)"
    and "map_of kvs ''operatorId'' = Some (PInt i)"
  shows "\<exists>rec. fst (get_operator_by_id nt i b w) = Inr rec \<and> py_get rec ''operatorId'' = Inr (PInt i)"
  using assms by (simp add: get_operator_by_id_eq response_json_def)

theorem get_operator_by_id_returns_requested_witness:
  "demo_net (issued world0) (get_req (default_arg DEFAULT_BASE_URL None @ ''/operators/'' @ str_int 1))
     = Reply (ok john)
   \<and> status_code (ok john) = 200
   \<and> json (ok john) = Some john
   \<and> (\<exists>rec. fst (get_operator_by_id demo_net 1 None world0) = Inr rec
         \<and> py_get rec ''operatorId'' = Inr (PInt 1))"
proof -
  have a: "demo_net (issued world0) (get_req (default_arg DEFAULT_BASE_URL None @ ''/operators/'' @ str_int 1))
             = Reply (ok john)"
    by (simp add: demo_net_def DEFAULT_BASE_URL_def str_int_1)
  have b: "200 \<le> status_code (ok john)" and c: "status_code (ok john) \<le> 299"
    by (simp_all add: ok_def)
  have d: "json (ok john) = Some (PDict [(''operatorId'', PInt 1), (''operatorName'', PStr ''John Smith''),
                 (''department'', PStr ''Production''), (''status'', PStr ''Active'')])"
    by (simp add: ok_def john_def)
  have e: "map_of [(''operatorId'', PInt 1), (''operatorName'', PStr ''John Smith''),
                 (''department'', PStr ''Production''), (''status'', PStr ''Active'')] ''operatorId''
             = Some (PInt 1)"
    by simp
  from get_operator_by_id_returns_requested [of demo_net world0 None 1 "ok john", OF a b c d e] a
  show ?thesis
    by (simp add: ok_def)
qed

section \<open>The operator summary\<close>

lemma get_operator_by_id_default:
  "get_operator_by_id nt i (Some (default_arg DEFAULT_BASE_URL b)) w = get_operator_by_id nt i b w"
  by (simp add: get_operator_by_id_def)

lemma get_all_operators_default:
  "get_all_operators nt (Some (default_arg DEFAULT_BASE_URL b)) w = get_all_operators nt b w"
  by (simp add: get_all_operators_def)

lemma get_operator_lots_default:
  "get_operator_lots nt i (Some (default_arg DEFAULT_BASE_URL b)) w = get_operator_lots nt i b w"
  by (simp add: get_operator_lots_def)

lemma get_operators_by_department_default:
  "get_operators_by_department nt d (Some (default_arg DEFAULT_BASE_URL b)) w
     = get_operators_by_department nt d b w"
  by (simp add: get_operators_by_department_def)

lemma get_operator_summary_eq:
  "get_operator_summary nt i b w =
     (case get_operator_by_id nt i b w of
        (Inl e, w1) \<Rightarrow> (Inl e, w1)
      | (Inr operator, w1) \<Rightarrow>
          (case get_operator_lots nt i b w1 of
             (Inl e, w2) \<Rightarrow> (Inl e, w2)
           | (Inr lots, w2) \<Rightarrow>
               (case py_len lots of
                  Inl e \<Rightarrow> (Inl e, w2)
                | Inr n \<Rightarrow>
                    (case py_get operator ''department'' of
                       Inl e \<Rightarrow> (Inl e, w2)
                     | Inr d \<Rightarrow>
                         (Inr (PDict [(''operator'', operator),
                                      (''lots'', lots),
                                      (''total_lots'', PInt (int n)),
                                      (''departments'', PList [d]),
                                      (''summary_generated_at'', PStr (clock w2))]), w2)))))"
  by (simp only: get_operator_summary_def Let_def get_operator_by_id_default get_operator_lots_default)

text \<open>
  Claim C2. For every operator id, when the fetch of the operator succeeds with a record and
  the fetch of its lots succeeds with a list, \<open>get_operator_summary\<close> returns the composite
  record whose \<^verbatim>\<open>operator\<close> is the fetched operator, whose \<^verbatim>\<open>lots\<close> is the fetched lot
  list, whose \<^verbatim>\<open>total_lots\<close> is the length of that list, whose \<^verbatim>\<open>departments\<close> is the
  one-element list holding the operator's department (\<^verbatim>\<open>None\<close> when the record has none),
  and which carries the timestamp of its generation.
\<close>

theorem get_operator_summary_composite:
  assumes "get_operator_by_id nt i b w = (Inr (PDict kvs), w1)"
    and "get_operator_lots nt i b w1 = (Inr (PList ls), w2)"
  shows "get_operator_summary nt i b w =
           (Inr (PDict [(''operator'', PDict kvs),
                        (''lots'', PList ls),
                        (''total_lots'', PInt (int (length ls))),
                        (''departments'', PList [case map_of kvs ''department'' of None \<Rightarrow> PNone | Some v \<Rightarrow> v]),
                        (''summary_generated_at'', PStr (clock w2))]), w2)"
  using assms by (simp add: get_operator_summary_eq)

theorem get_operator_summary_composite_witness:
  "get_operator_by_id demo_net 1 None world0
     = (Inr john, world0\<lparr>issued := [get_req ''http://localhost:8080/api/v1/operators/1'']\<rparr>)
   \<and> get_operator_lots demo_net 1 None
        (world0\<lparr>issued := [get_req ''http://localhost:8080/api/v1/operators/1'']\<rparr>)
     = (Inr (PList [lot_a, lot_b]),
        world0\<lparr>issued := [get_req ''http://localhost:8080/api/v1/operators/1'',
                            get_req ''http://localhost:8080/api/v1/operators/1/lots'']\<rparr>)
   \<and> get_operator_summary demo_net 1 None world0
     = (Inr (PDict [(''operator'', john),
                    (''lots'', PList [lot_a, lot_b]),
                    (''total_lots'', PInt 2),
                    (''departments'', PList [PStr ''Production'']),
                    (''summary_generated_at'', PStr ''2024-01-15T10:30:00'')]),
        world0\<lparr>issued := [get_req ''http://localhost:8080/api/v1/operators/1'',
                            get_req ''http://localhost:8080/api/v1/operators/1/lots'']\<rparr>)"
proof -
  let ?kvs = "[(''operatorId'', PInt 1), (''operatorName'', PStr ''John Smith''),
               (''department'', PStr ''Production''), (''status'', PStr ''Active'')]"
  let ?w1 = "world0\<lparr>issued := [get_req ''http://localhost:8080/api/v1/operators/1'']\<rparr>"
  let ?w2 = "world0\<lparr>issued := [get_req ''http://localhost:8080/api/v1/operators/1'',
                            get_req ''http://localhost:8080/api/v1/operators/1/lots'']\<rparr>"
  have a: "get_operator_by_id demo_net 1 None world0 = (Inr (PDict ?kvs), ?w1)"
    by (simp add: get_operator_by_id_eq str_int_1 DEFAULT_BASE_URL_def demo_net_def world0_def ok_def
          response_json_def john_def)
  have b: "get_operator_lots demo_net 1 None ?w1 = (Inr (PList [lot_a, lot_b]), ?w2)"
    by (simp add: get_operator_lots_eq str_int_1 DEFAULT_BASE_URL_def demo_net_def world0_def ok_def
          response_json_def)
  have c: "clock ?w2 = ''2024-01-15T10:30:00''"
    by (simp add: world0_def)
  from get_operator_summary_composite [OF a b] a b c show ?thesis
    by (simp add: john_def)
qed

section \<open>Searching operators\<close>

lemma filter_status_result:
  "filter_status s xs = Inr ys \<Longrightarrow> ys = filter (\<lambda>x. py_get x ''status'' = Inr (PStr s)) xs"
proof (induction xs arbitrary: ys)
  case Nil
  then show ?case by simp
next
  case (Cons x xs)
  then show ?case
    by (auto split: sum.splits if_splits)
qed

lemma filter_status_dicts:
  "\<forall>x\<in>set xs. \<exists>kvs. x = PDict kvs \<Longrightarrow>
   filter_status s xs = Inr (filter (\<lambda>x. py_get x ''status'' = Inr (PStr s)) xs)"
  by (induction xs) auto

lemma search_operators_none:
  "search_operators nt None status b w =
     (case get_all_operators nt b w of
        (Inl e, w') \<Rightarrow> (Inl e, w')
      | (Inr operators, w') \<Rightarrow>
          (if truthy status then
             (case py_iter operators of
                Inl e \<Rightarrow> (Inl e, w')
              | Inr xs \<Rightarrow>
                  (case filter_status (the status) xs of
                     Inl e \<Rightarrow> (Inl e, w')
                   | Inr ys \<Rightarrow> (Inr (PList ys), w')))
           else (Inr operators, w')))"
  by (simp only: search_operators_def Let_def get_all_operators_default truthy.simps if_False)

lemma search_operators_empty:
  "search_operators nt (Some []) status b w = search_operators nt None status b w"
  by (simp only: search_operators_def Let_def truthy.simps refl if_False simp_thms)

lemma search_operators_some:
  "d \<noteq> [] \<Longrightarrow>
   search_operators nt (Some d) status b w =
     (case get_operators_by_department nt d b w of
        (Inl e, w') \<Rightarrow> (Inl e, w')
      | (Inr operators, w') \<Rightarrow>
          (if truthy status then
             (case py_iter operators of
                Inl e \<Rightarrow> (Inl e, w')
              | Inr xs \<Rightarrow>
                  (case filter_status (the status) xs of
                     Inl e \<Rightarrow> (Inl e, w')
                   | Inr ys \<Rightarrow> (Inr (PList ys), w')))
           else (Inr operators, w')))"
  by (simp only: search_operators_def Let_def get_operators_by_department_default truthy.simps
        option.sel if_True simp_thms)

lemma search_operators_fetch:
  "search_operators nt department status b w =
     (case (case department of
                    None \<Rightarrow> get_all_operators nt b w
                  | Some d \<Rightarrow> if d = [] then get_all_operators nt b w
                              else get_operators_by_department nt d b w) of
        (Inl e, w') \<Rightarrow> (Inl e, w')
      | (Inr operators, w') \<Rightarrow>
          (if truthy status then
             (case py_iter operators of
                Inl e \<Rightarrow> (Inl e, w')
              | Inr xs \<Rightarrow>
                  (case filter_status (the status) xs of
                     Inl e \<Rightarrow> (Inl e, w')
                   | Inr ys \<Rightarrow> (Inr (PList ys), w')))
           else (Inr operators, w')))"
proof (cases department)
  case None
  then show ?thesis by (simp add: search_operators_none)
next
  case (Some d)
  then show ?thesis
    by (cases "d = []") (simp_all add: search_operators_empty search_operators_none search_operators_some)
qed

text \<open>
  Claim C3, as amended. For every department argument and every non-empty status argument,
  the value returned by \<open>search_operators\<close> is a list all of whose records have their
  \<^verbatim>\<open>status\<close> field equal to the given status; with status \<^verbatim>\<open>"Active"\<close> no record of
  another status is returned. (An empty status string is false in Python: it is treated as
  no status at all and nothing is filtered.)
\<close>

theorem search_operators_status_filter:
  assumes "search_operators nt department (Some s) b w = (Inr r, w')"
    and "s \<noteq> []"
  shows "\<exists>ys. r = PList ys \<and> (\<forall>x\<in>set ys. py_get x ''status'' = Inr (PStr s))"
proof -
  obtain res w1 where f: "(case department of
                    None \<Rightarrow> get_all_operators nt b w
                  | Some d \<Rightarrow> if d = [] then get_all_operators nt b w
                              else get_operators_by_department nt d b w) = (res, w1)"
    by (cases "(case department of
                    None \<Rightarrow> get_all_operators nt b w
                  | Some d \<Rightarrow> if d = [] then get_all_operators nt b w
                              else get_operators_by_department nt d b w)") auto
  from assms f show ?thesis
    by (auto simp add: search_operators_fetch split: sum.splits dest: filter_status_result)
qed

text \<open>
  Claim C4, as amended. \<open>search_operators\<close> fetches the operators of the department when a
  non-empty department is given and all operators when the department is absent or the
  empty string; it returns the fetched value unchanged when the status is absent or the
  empty string, and applies the equality filter on \<^verbatim>\<open>status\<close> when a non-empty status is
  given.
\<close>

theorem search_operators_choice:
  "(let fetch = (case department of
                    None \<Rightarrow> get_all_operators nt b w
                  | Some d \<Rightarrow> if d = [] then get_all_operators nt b w
                              else get_operators_by_department nt d b w);
        found = search_operators nt department status b w
    in (status = None \<or> status = Some [] \<longrightarrow> found = fetch)
     \<and> (\<forall>s. status = Some s \<and> s \<noteq> [] \<longrightarrow>
          (\<forall>e. fst fetch = Inl e \<longrightarrow> found = fetch)
        \<and> (\<forall>xs. fst fetch = Inr (PList xs) \<and> (\<forall>x\<in>set xs. \<exists>kvs. x = PDict kvs) \<longrightarrow>
              found = (Inr (PList (filter (\<lambda>x. py_get x ''status'' = Inr (PStr s)) xs)), snd fetch))))"
proof -
  obtain res w1 where f: "(case department of
                    None \<Rightarrow> get_all_operators nt b w
                  | Some d \<Rightarrow> if d = [] then get_all_operators nt b w
                              else get_operators_by_department nt d b w) = (res, w1)"
    by (cases "(case department of
                    None \<Rightarrow> get_all_operators nt b w
                  | Some d \<Rightarrow> if d = [] then get_all_operators nt b w
                              else get_operators_by_department nt d b w)") auto
  show ?thesis
    unfolding Let_def search_operators_fetch f
    by (auto simp add: filter_status_dicts split: sum.splits)
qed

text \<open>
  Claim C5, as amended. For every server, the list returned by \<open>search_operators\<close> is a
  subsequence of the list returned by the fetch it performs (the operators of the department
  when a non-empty department is given, all operators otherwise): the order is the server's
  and nothing is changed or added; a list of records always yields a list; an empty list
  yields an empty list; and no request beyond that fetch is issued.
\<close>

theorem search_operators_subseq:
  "(let fetch = (case department of
                    None \<Rightarrow> get_all_operators nt b w
                  | Some d \<Rightarrow> if d = [] then get_all_operators nt b w
                              else get_operators_by_department nt d b w);
        found = search_operators nt department status b w
    in (\<forall>xs r. fst fetch = Inr (PList xs) \<and> fst found = Inr r \<longrightarrow> (\<exists>ys. r = PList ys \<and> subseq ys xs))
     \<and> (\<forall>xs. fst fetch = Inr (PList xs) \<and> (\<forall>x\<in>set xs. \<exists>kvs. x = PDict kvs) \<longrightarrow>
            (\<exists>ys. fst found = Inr (PList ys)))
     \<and> (fst fetch = Inr (PList []) \<longrightarrow> fst found = Inr (PList []))
     \<and> snd found = snd fetch)"
proof -
  obtain res w1 where f: "(case department of
                    None \<Rightarrow> get_all_operators nt b w
                  | Some d \<Rightarrow> if d = [] then get_all_operators nt b w
                              else get_operators_by_department nt d b w) = (res, w1)"
    by (cases "(case department of
                    None \<Rightarrow> get_all_operators nt b w
                  | Some d \<Rightarrow> if d = [] then get_all_operators nt b w
                              else get_operators_by_department nt d b w)") auto
  have a: "\<forall>xs r. res = Inr (PList xs) \<and> fst (search_operators nt department status b w) = Inr r
             \<longrightarrow> (\<exists>ys. r = PList ys \<and> subseq ys xs)"
    unfolding search_operators_fetch f
    by (auto split: sum.splits dest: filter_status_result)
  have b: "\<forall>xs. res = Inr (PList xs) \<and> (\<forall>x\<in>set xs. \<exists>kvs. x = PDict kvs)
             \<longrightarrow> (\<exists>ys. fst (search_operators nt department status b w) = Inr (PList ys))"
    unfolding search_operators_fetch f
    by (auto simp add: filter_status_dicts split: sum.splits)
  have c: "res = Inr (PList []) \<longrightarrow> fst (search_operators nt department status b w) = Inr (PList [])"
    unfolding search_operators_fetch f
    by (auto split: sum.splits)
  have d: "snd (search_operators nt department status b w) = w1"
    unfolding search_operators_fetch f
    by (auto split: sum.splits)
  from a b c d show ?thesis
    unfolding Let_def f by simp
qed

lemma demo_all:
  "get_all_operators demo_net None world0
     = (Inr (PList [john, mary]), world0\<lparr>issued := [get_req ''http://localhost:8080/api/v1/operators'']\<rparr>)"
  by (simp add: get_all_operators_eq DEFAULT_BASE_URL_def demo_net_def world0_def ok_def response_json_def)

lemma demo_production:
  "get_operators_by_department demo_net ''Production'' None world0
     = (Inr (PList [john, mary]),
        world0\<lparr>issued := [get_req ''http://localhost:8080/api/v1/operators/department/Production'']\<rparr>)"
  by (simp add: get_operators_by_department_eq DEFAULT_BASE_URL_def demo_net_def world0_def ok_def
        response_json_def)

lemma demo_no_department:
  "get_operators_by_department demo_net [] None world0
     = (Inr (PList []),
        world0\<lparr>issued := [get_req ''http://localhost:8080/api/v1/operators/department/'']\<rparr>)"
  by (simp add: get_operators_by_department_eq DEFAULT_BASE_URL_def demo_net_def world0_def ok_def
        response_json_def)

lemma demo_search_production_active:
  "search_operators demo_net (Some ''Production'') (Some ''Active'') None world0
     = (Inr (PList [john]),
        world0\<lparr>issued := [get_req ''http://localhost:8080/api/v1/operators/department/Production'']\<rparr>)"
  by (simp add: search_operators_fetch demo_production john_def mary_def)

lemma demo_search_empty_department:
  "search_operators demo_net (Some []) None None world0
     = (Inr (PList [john, mary]), world0\<lparr>issued := [get_req ''http://localhost:8080/api/v1/operators'']\<rparr>)"
  by (simp add: search_operators_fetch demo_all)

lemma demo_search_empty_status:
  "search_operators demo_net None (Some []) None world0
     = (Inr (PList [john, mary]), world0\<lparr>issued := [get_req ''http://localhost:8080/api/v1/operators'']\<rparr>)"
  by (simp add: search_operators_fetch demo_all)

theorem search_operators_status_filter_witness:
  "search_operators demo_net (Some ''Production'') (Some ''Active'') None world0
     = (Inr (PList [john]),
        world0\<lparr>issued := [get_req ''http://localhost:8080/api/v1/operators/department/Production'']\<rparr>)
   \<and> ''Active'' \<noteq> []
   \<and> (\<exists>ys. PList [john] = PList ys \<and> (\<forall>x\<in>set ys. py_get x ''status'' = Inr (PStr ''Active'')))"
proof -
  have a: "''Active'' \<noteq> []" by simp
  from search_operators_status_filter [OF demo_search_production_active a] demo_search_production_active a
  show ?thesis by blast
qed

theorem search_operators_empty_status_counterexample:
  "fst (search_operators demo_net None (Some []) None world0) = Inr (PList [john, mary])
   \<and> py_get john ''status'' = Inr (PStr ''Active'')
   \<and> py_get john ''status'' \<noteq> Inr (PStr [])"
  by (simp add: demo_search_empty_status john_def)

theorem search_operators_choice_witness:
  "search_operators demo_net (Some ''Production'') None None world0
     = get_operators_by_department demo_net ''Production'' None world0
   \<and> search_operators demo_net None None None world0 = get_all_operators demo_net None world0
   \<and> search_operators demo_net (Some ''Production'') (Some ''Active'') None world0
     = (Inr (PList [john]), snd (get_operators_by_department demo_net ''Production'' None world0))"
proof -
  have a: "\<forall>x\<in>set [john, mary]. \<exists>kvs. x = PDict kvs"
    by (simp add: john_def mary_def)
  have b: "filter (\<lambda>x. py_get x ''status'' = Inr (PStr ''Active'')) [john, mary] = [john]"
    by (simp add: john_def mary_def)
  have c: "''Production'' \<noteq> []" "''Active'' \<noteq> []"
    by simp_all
  from a b c demo_production
    search_operators_choice
      [where department="Some ''Production''" and nt=demo_net and b=None and w=world0
         and status="None"]
    search_operators_choice
      [where department="None" and nt=demo_net and b=None and w=world0
         and status="None"]
    search_operators_choice
      [where department="Some ''Production''" and nt=demo_net and b=None and w=world0
         and status="Some ''Active''"]
  show ?thesis
    by (simp add: Let_def)
qed

theorem search_operators_empty_department_counterexample:
  "search_operators demo_net (Some []) None None world0 = get_all_operators demo_net None world0
   \<and> map url (issued (snd (search_operators demo_net (Some []) None None world0)))
       = [''http://localhost:8080/api/v1/operators'']
   \<and> map url (issued (snd (get_operators_by_department demo_net [] None world0)))
       = [''http://localhost:8080/api/v1/operators/department/'']
   \<and> search_operators demo_net (Some []) None None world0
       \<noteq> get_operators_by_department demo_net [] None world0"
  by (simp add: demo_search_empty_department demo_all demo_no_department)

theorem search_operators_subseq_witness:
  "fst (get_operators_by_department demo_net ''Production'' None world0) = Inr (PList [john, mary])
   \<and> fst (search_operators demo_net (Some ''Production'') (Some ''Active'') None world0) = Inr (PList [john])
   \<and> subseq [john] [john, mary]
   \<and> snd (search_operators demo_net (Some ''Production'') (Some ''Active'') None world0)
       = snd (get_operators_by_department demo_net ''Production'' None world0)"
proof -
  have a: "fst (get_operators_by_department demo_net ''Production'' None world0) = Inr (PList [john, mary])"
    by (simp add: demo_production)
  have b: "fst (search_operators demo_net (Some ''Production'') (Some ''Active'') None world0)
             = Inr (PList [john])"
    by (simp add: demo_search_production_active)
  have c: "''Production'' \<noteq> []"
    by simp
  from a b c search_operators_subseq
      [where department="Some ''Production''" and nt=demo_net and b=None and w=world0
         and status="Some ''Active''"]
  show ?thesis
    by (simp add: Let_def)
qed

theorem search_operators_subseq_counterexample:
  "fst (search_operators demo_net (Some []) None None world0) = Inr (PList [john, mary])
   \<and> fst (get_operators_by_department demo_net [] None world0) = Inr (PList [])
   \<and> \<not> subseq [john, mary] []"
  by (simp add: demo_search_empty_department demo_no_department)

lemma fetch_issued:
  "\<exists>req. issued (snd (case department of
                    None \<Rightarrow> get_all_operators nt b w
                  | Some d \<Rightarrow> if d = [] then get_all_operators nt b w
                              else get_operators_by_department nt d b w)) = issued w @ [req]
         \<and> timeout req = 30"
  by (simp add: get_all_operators_eq get_operators_by_department_eq split: option.splits)

lemma search_operators_world:
  "snd (search_operators nt department status b w)
     = snd (case department of
                    None \<Rightarrow> get_all_operators nt b w
                  | Some d \<Rightarrow> if d = [] then get_all_operators nt b w
                              else get_operators_by_department nt d b w)"
  unfolding search_operators_fetch
  by (auto split: sum.splits prod.splits)

lemma search_operators_issued:
  "\<exists>req. issued (snd (search_operators nt department status b w)) = issued w @ [req] \<and> timeout req = 30"
  unfolding search_operators_world by (rule fetch_issued)

section \<open>Timeout and retries\<close>

text \<open>
  Claim C9. Every request is issued with the timeout 30 when none is specified, and nothing
  is retried: whatever the server does, each accessor, and each of \<open>safe_get_operator\<close> and
  \<open>search_operators\<close>, which invoke one accessor, issues exactly one request.
\<close>

theorem one_request_default_timeout:
  "timeout (last (issued (snd (make_request nt meth endpoint base_url jdata ps None w)))) = 30
   \<and> length (issued (snd (make_request nt meth endpoint base_url jdata ps tmo w))) = length (issued w) + 1
   \<and> (\<exists>req. issued (snd (get_operator_by_id nt i b w)) = issued w @ [req] \<and> timeout req = 30)
   \<and> (\<exists>req. issued (snd (get_all_operators nt b w)) = issued w @ [req] \<and> timeout req = 30)
   \<and> (\<exists>req. issued (snd (get_operator_lots nt i b w)) = issued w @ [req] \<and> timeout req = 30)
   \<and> (\<exists>req. issued (snd (get_operators_by_department nt d b w)) = issued w @ [req] \<and> timeout req = 30)
   \<and> (\<exists>req. issued (snd (get_operator_by_code nt c b w)) = issued w @ [req] \<and> timeout req = 30)
   \<and> (\<exists>req. issued (snd (safe_get_operator nt i b w)) = issued w @ [req] \<and> timeout req = 30)
   \<and> (\<exists>req. issued (snd (search_operators nt department status b w)) = issued w @ [req]
          \<and> timeout req = 30)"
proof (intro conjI)
  show "timeout (last (issued (snd (make_request nt meth endpoint base_url jdata ps None w)))) = 30"
    by (simp add: make_request_eq Let_def)
  show "length (issued (snd (make_request nt meth endpoint base_url jdata ps tmo w))) = length (issued w) + 1"
    by (simp add: make_request_eq Let_def)
  show "\<exists>req. issued (snd (get_operator_by_id nt i b w)) = issued w @ [req] \<and> timeout req = 30"
    by (simp add: get_operator_by_id_eq)
  show "\<exists>req. issued (snd (get_all_operators nt b w)) = issued w @ [req] \<and> timeout req = 30"
    by (simp add: get_all_operators_eq)
  show "\<exists>req. issued (snd (get_operator_lots nt i b w)) = issued w @ [req] \<and> timeout req = 30"
    by (simp add: get_operator_lots_eq)
  show "\<exists>req. issued (snd (get_operators_by_department nt d b w)) = issued w @ [req] \<and> timeout req = 30"
    by (simp add: get_operators_by_department_eq)
  show "\<exists>req. issued (snd (get_operator_by_code nt c b w)) = issued w @ [req] \<and> timeout req = 30"
    by (simp add: get_operator_by_code_eq)
  show "\<exists>req. issued (snd (safe_get_operator nt i b w)) = issued w @ [req] \<and> timeout req = 30"
    by (auto simp add: safe_get_operator_eq get_operator_by_id_eq split: reply.splits error.splits sum.splits)
  show "\<exists>req. issued (snd (search_operators nt department status b w)) = issued w @ [req]
          \<and> timeout req = 30"
    using search_operators_issued by blast
qed

end
